theory Spec2Isabelle
  imports Complex_Main "HOL-Library.Log_Nat" "HOL-Library.Option_ord" "HOL-Library.Product_Lexorder"
    "HOL-Library.Char_ord" "HOL-Library.List_Lexorder" "HOL-Library.Multiset"
begin

section \<open>Numbers of the program\<close>

text \<open>
  Quantities, ids and day counts are Python \<open>int\<close>s: unbounded, modelled as \<open>int\<close>.
  A \<open>date\<close> is modelled by its day number, so that \<open>(d1 - d2).days\<close> is \<open>d1 - d2\<close>; a
  \<open>datetime\<close> by a number of seconds.

  Prices and values are \<open>decimal.Decimal\<close>. A Decimal denotes a rational number, and every
  arithmetic operation of the decimal module returns the exact result rounded to the
  precision of the context, 28 significant digits, ties to even (the default context, which
  the program never changes). The model keeps the value of a Decimal as a \<open>rat\<close> and rounds
  after each operation with \<open>round_sig 10 28\<close>. The exponent limits of the context
  (\<open>Emax = 999999\<close>) and the sign of zero are not modelled.

  A Python \<open>float\<close> is an IEEE double: the same rounding with base 2 and 53 significant
  bits. Subnormal numbers are not modelled; results of magnitude \<open>2 ^ 1024\<close> and above are
  the error \<open>OverflowError\<close> where Python raises it.
\<close>

type_synonym date = int
type_synonym datetime = int
type_synonym decimal = rat

definition round_half_even :: "rat \<Rightarrow> int" where
  "round_half_even x =
     (let f = \<lfloor>x\<rfloor>; d = x - of_int f
      in if d < 1 / 2 then f else if 1 / 2 < d then f + 1 else if even f then f else f + 1)"

text \<open>For \<open>0 < x\<close>, the exponent \<open>e\<close> with \<open>b ^ e \<le> x < b ^ (e + 1)\<close>.\<close>

definition adjusted_exp :: "nat \<Rightarrow> rat \<Rightarrow> int" where
  "adjusted_exp b x =
     (if 1 \<le> x then int (floorlog b (nat \<lfloor>x\<rfloor>)) - 1
      else - int (floorlog b (nat (\<lceil>1 / x\<rceil> - 1))))"

text \<open>Rounding to \<open>p\<close> significant digits in base \<open>b\<close>, ties to even.\<close>

definition round_sig :: "nat \<Rightarrow> nat \<Rightarrow> rat \<Rightarrow> rat" where
  "round_sig b p x =
     (if x = 0 then 0
      else let a = \<bar>x\<bar>;
               e = adjusted_exp b a - (int p - 1);
               c = round_half_even (a / (of_nat b powi e))
           in sgn x * of_int c * (of_nat b powi e))"

definition dec_round :: "rat \<Rightarrow> decimal" where
  "dec_round x = round_sig 10 28 x"

definition dec_add :: "decimal \<Rightarrow> decimal \<Rightarrow> decimal" where
  "dec_add x y = dec_round (x + y)"

definition dec_sub :: "decimal \<Rightarrow> decimal \<Rightarrow> decimal" where
  "dec_sub x y = dec_round (x - y)"

definition dec_mul :: "decimal \<Rightarrow> decimal \<Rightarrow> decimal" where
  "dec_mul x y = dec_round (x * y)"

definition dec_abs :: "decimal \<Rightarrow> decimal" where
  "dec_abs x = dec_round \<bar>x\<bar>"

text \<open>\<open>int * Decimal\<close>: the int is converted exactly, then the product is rounded.\<close>

definition int_mul_dec :: "int \<Rightarrow> decimal \<Rightarrow> decimal" where
  "int_mul_dec n x = dec_mul (of_int n) x"

text \<open>
  The exceptions of Python's arithmetic that the program can meet. Division of a Decimal
  by zero raises \<open>decimal.DivisionByZero\<close>, or \<open>decimal.InvalidOperation\<close> for \<open>0 / 0\<close>
  (both are trapped in the default context).
\<close>

datatype py_error = ZeroDivisionError | OverflowError | DivisionByZero | InvalidOperation

definition dec_div :: "decimal \<Rightarrow> decimal \<Rightarrow> py_error + decimal" where
  "dec_div x y =
     (if y = 0 then (if x = 0 then Inl InvalidOperation else Inl DivisionByZero)
      else Inr (dec_round (x / y)))"

text \<open>Floats: the value of a double as a \<open>rat\<close>, rounded after each operation.\<close>

definition to_double :: "rat \<Rightarrow> rat" where
  "to_double x = round_sig 2 53 x"



text \<open>
  \<open>int(n * x)\<close> for an int \<open>n\<close> and a float \<open>x\<close>: \<open>n\<close> is converted to a float, the product
  is rounded, and \<open>int\<close> truncates towards zero; a product that overflows is the float
  infinity, which \<open>int\<close> refuses with \<open>OverflowError\<close>.
\<close>

definition int_of_float :: "rat \<Rightarrow> int" where
  "int_of_float x = (if 0 \<le> x then \<lfloor>x\<rfloor> else \<lceil>x\<rceil>)"


text \<open>
  A \<open>Numeric(15, 4)\<close> column on SQLite, the database of config.py: the value is bound as
  a float, and read back as the Decimal of its numeral with four decimal places
  (\<open>"%.4f"\<close>). An object is expired by \<open>commit\<close>, so what the caller reads from it is the
  stored value.
\<close>

definition numeric_15_4 :: "rat \<Rightarrow> decimal" where
  "numeric_15_4 x = of_int (round_half_even (to_double x * 10 ^ 4)) / 10 ^ 4"

text \<open>
  \<open>str(x)\<close> of a float is the shortest decimal numeral that reads back as \<open>x\<close>, and of
  those the one nearest to \<open>x\<close>; \<open>Decimal(str(x))\<close> is the value of that numeral.
  \<open>float_repr_digits n x\<close> looks for it among the numerals of \<open>n\<close> significant digits:
  only the two neighbours of \<open>x\<close> can read back as \<open>x\<close>. Seventeen digits always do.
\<close>

definition float_repr_digits :: "nat \<Rightarrow> rat \<Rightarrow> rat option" where
  "float_repr_digits n x =
     (let e = adjusted_exp 10 x - (int n - 1);
          s = x / (10 powi e);
          lo = of_int \<lfloor>s\<rfloor> * (10 powi e);
          hi = of_int \<lceil>s\<rceil> * (10 powi e);
          ok_lo = (to_double lo = x);
          ok_hi = (to_double hi = x)
      in if ok_lo \<and> ok_hi then
           Some (if x - lo < hi - x then lo else if hi - x < x - lo then hi
                 else if even \<lfloor>s\<rfloor> then lo else hi)
         else if ok_lo then Some lo
         else if ok_hi then Some hi
         else None)"

fun float_repr_from :: "nat \<Rightarrow> nat \<Rightarrow> rat \<Rightarrow> rat" where
  "float_repr_from 0 n x = x"
| "float_repr_from (Suc k) n x =
     (case float_repr_digits n x of Some d \<Rightarrow> d | None \<Rightarrow> float_repr_from k (Suc n) x)"

definition decimal_of_float_str :: "rat \<Rightarrow> decimal" where
  "decimal_of_float_str x =
     (if x = 0 then 0 else sgn x * float_repr_from 17 1 \<bar>x\<bar>)"

section \<open>The FIFO engine (services/fifo\_engine.py)\<close>

text \<open>
  The dataclasses \<open>BuyLot\<close> and \<open>MatchedLot\<close>. Field names carry a prefix, since the
  classes of the program share the names \<open>quantity\<close>, \<open>trade_date\<close> and others.
\<close>

record BuyLot =
  lot_trade_date :: date
  lot_trade_datetime :: "datetime option"
  lot_quantity :: int
  lot_price :: decimal
  lot_remaining_qty :: int
  lot_trade_id :: string
  lot_order_id :: "string option"

record MatchedLot =
  ml_entry_date :: date
  ml_exit_date :: date
  ml_quantity :: int
  ml_buy_price :: decimal
  ml_sell_price :: decimal
  ml_buy_value :: decimal
  ml_sell_value :: decimal
  ml_profit :: decimal
  ml_holding_days :: int
  ml_tax_term :: string
  ml_buy_trade_id :: string
  ml_sell_trade_id :: string

text \<open>The state of a \<open>FIFOEngine\<close> object: the deque of lots, oldest first, and the totals.\<close>

record FIFOEngine =
  buy_lots :: "BuyLot list"
  matched_lots :: "MatchedLot list"
  total_bought :: int
  total_sold :: int

datatype fifo_error = ValueError int int

definition FIFOEngine_init :: FIFOEngine where
  "FIFOEngine_init = \<lparr>buy_lots = [], matched_lots = [], total_bought = 0, total_sold = 0\<rparr>"

definition process_buy ::
  "FIFOEngine \<Rightarrow> date \<Rightarrow> int \<Rightarrow> decimal \<Rightarrow> string \<Rightarrow> datetime option \<Rightarrow> string option
     \<Rightarrow> BuyLot \<times> FIFOEngine" where
  "process_buy e trade_date quantity price trade_id trade_datetime order_id =
     (let lot = \<lparr>lot_trade_date = trade_date, lot_trade_datetime = trade_datetime,
                 lot_quantity = quantity, lot_price = price, lot_remaining_qty = quantity,
                 lot_trade_id = trade_id, lot_order_id = order_id\<rparr>
      in (lot, e\<lparr>buy_lots := buy_lots e @ [lot], total_bought := total_bought e + quantity\<rparr>))"

definition get_available_quantity :: "FIFOEngine \<Rightarrow> int" where
  "get_available_quantity e = sum_list (map lot_remaining_qty (buy_lots e))"

text \<open>One matched lot, as the body of the loop of \<open>process_sell\<close> builds it.\<close>

definition match_lot :: "date \<Rightarrow> decimal \<Rightarrow> string \<Rightarrow> BuyLot \<Rightarrow> int \<Rightarrow> MatchedLot" where
  "match_lot trade_date price trade_id buy_lot matched_qty =
     (let buy_value = int_mul_dec matched_qty (lot_price buy_lot);
          sell_value = int_mul_dec matched_qty price;
          profit = dec_sub sell_value buy_value;
          holding_days = trade_date - lot_trade_date buy_lot;
          tax_term = (if holding_days > 365 then ''LTCG'' else ''STCG'')
      in \<lparr>ml_entry_date = lot_trade_date buy_lot, ml_exit_date = trade_date,
          ml_quantity = matched_qty, ml_buy_price = lot_price buy_lot, ml_sell_price = price,
          ml_buy_value = buy_value, ml_sell_value = sell_value, ml_profit = profit,
          ml_holding_days = holding_days, ml_tax_term = tax_term,
          ml_buy_trade_id = lot_trade_id buy_lot, ml_sell_trade_id = trade_id\<rparr>)"

text \<open>
  The loop \<open>while remaining_sell > 0 and self.buy_lots\<close>: the arguments are the loop's
  variables \<open>remaining_sell\<close>, the deque and \<open>matched\<close>. A lot that is not exhausted stays
  at the head with its remaining quantity reduced.
\<close>

function sell_loop ::
  "date \<Rightarrow> decimal \<Rightarrow> string \<Rightarrow> int \<Rightarrow> BuyLot list \<Rightarrow> MatchedLot list
     \<Rightarrow> MatchedLot list \<times> BuyLot list" where
  "sell_loop trade_date price trade_id remaining_sell [] matched = (matched, [])"
| "sell_loop trade_date price trade_id remaining_sell (buy_lot # rest) matched =
     (if remaining_sell > 0 then
        (let matched_qty = min remaining_sell (lot_remaining_qty buy_lot);
             matched_lot = match_lot trade_date price trade_id buy_lot matched_qty;
             buy_lot' = buy_lot\<lparr>lot_remaining_qty := lot_remaining_qty buy_lot - matched_qty\<rparr>;
             remaining_sell' = remaining_sell - matched_qty
         in if lot_remaining_qty buy_lot' = 0
            then sell_loop trade_date price trade_id remaining_sell' rest (matched @ [matched_lot])
            else sell_loop trade_date price trade_id remaining_sell' (buy_lot' # rest)
                   (matched @ [matched_lot]))
      else (matched, buy_lot # rest))"
  by pat_completeness auto
termination
  by (relation "measure (\<lambda>(d, p, t, rs, lots, m). 2 * length lots + (if rs > 0 then 1 else 0))")
     (auto simp: min_def split: if_splits)

text \<open>
  \<open>process_sell\<close> returns the engine with its result: the error leaves the engine as it
  was, since the exception is raised before anything is written.
\<close>

definition process_sell ::
  "FIFOEngine \<Rightarrow> date \<Rightarrow> int \<Rightarrow> decimal \<Rightarrow> string \<Rightarrow> datetime option
     \<Rightarrow> (fifo_error + MatchedLot list) \<times> FIFOEngine"
  where
  "process_sell e trade_date quantity price trade_id trade_datetime =
     (let available = get_available_quantity e
      in if quantity > available then (Inl (ValueError quantity available), e)
         else let (matched, lots) = sell_loop trade_date price trade_id quantity (buy_lots e) []
              in (Inr matched,
                  e\<lparr>buy_lots := lots, matched_lots := matched_lots e @ matched,
                    total_sold := total_sold e + quantity\<rparr>))"

definition get_current_holdings_as_lots :: "FIFOEngine \<Rightarrow> BuyLot list" where
  "get_current_holdings_as_lots e = filter (\<lambda>lot. lot_remaining_qty lot > 0) (buy_lots e)"

text \<open>
  \<open>FIFOEngine.from_trades\<close> takes the trades as dicts. They are sorted (\<open>sorted\<close> is
  stable) by \<open>trade_datetime\<close>, or by midnight of \<open>trade_date\<close> where it is missing; a
  trade that is neither a buy nor a sell is passed over; the \<open>ValueError\<close> of a sell is
  raised again, so the first sell that exceeds the holdings ends the construction.
\<close>

record TradeDict =
  td_trade_type :: string
  td_trade_date :: date
  td_trade_datetime :: "datetime option"
  td_quantity :: int
  td_price :: decimal
  td_trade_id :: string
  td_order_id :: "string option"

definition trade_sort_key :: "TradeDict \<Rightarrow> datetime" where
  "trade_sort_key t =
     (case td_trade_datetime t of Some dt \<Rightarrow> dt | None \<Rightarrow> 86400 * td_trade_date t)"

fun from_trades_loop :: "FIFOEngine \<Rightarrow> TradeDict list \<Rightarrow> fifo_error + FIFOEngine" where
  "from_trades_loop e [] = Inr e"
| "from_trades_loop e (t # ts) =
     (if td_trade_type t = ''buy''
      then from_trades_loop
             (snd (process_buy e (td_trade_date t) (td_quantity t) (td_price t) (td_trade_id t)
                     (td_trade_datetime t) (td_order_id t))) ts
      else if td_trade_type t = ''sell''
      then (case process_sell e (td_trade_date t) (td_quantity t) (td_price t) (td_trade_id t)
                   (td_trade_datetime t) of
              (Inl err, e') \<Rightarrow> Inl err
            | (Inr matched, e') \<Rightarrow> from_trades_loop e' ts)
      else from_trades_loop e ts)"

definition from_trades :: "TradeDict list \<Rightarrow> fifo_error + FIFOEngine" where
  "from_trades trades = from_trades_loop FIFOEngine_init (sort_key trade_sort_key trades)"

text \<open>
  What the engine keeps true, and the quantities of a list of trades that its totals are
  compared with: the units bought, the units sold, and the units disposed of, which are
  the quantities of the matched records.
\<close>

definition engine_consistent :: "FIFOEngine \<Rightarrow> bool" where
  "engine_consistent e \<longleftrightarrow>
     list_all (\<lambda>l. 0 < lot_remaining_qty l) (buy_lots e)
     \<and> get_available_quantity e = total_bought e - total_sold e
     \<and> sum_list (map ml_quantity (matched_lots e)) = total_sold e"

definition bought_quantity :: "TradeDict list \<Rightarrow> int" where
  "bought_quantity tds =
     sum_list (map td_quantity (filter (\<lambda>t. td_trade_type t = ''buy'') tds))"

definition sold_quantity :: "TradeDict list \<Rightarrow> int" where
  "sold_quantity tds =
     sum_list (map td_quantity (filter (\<lambda>t. td_trade_type t = ''sell'') tds))"

definition disposed_quantity :: "FIFOEngine \<Rightarrow> int" where
  "disposed_quantity e = sum_list (map ml_quantity (matched_lots e))"

section \<open>The stored tables (models/)\<close>

text \<open>
  The rows of the tables that the services read and write, with the columns they use
  (the timestamps \<open>created_at\<close> and \<open>updated_at\<close> are left out). A table is the list of
  its rows in insertion order. A query with \<open>order_by\<close> is a stable sort of the selected
  rows: rows with equal keys come in insertion order. \<open>NULLS FIRST\<close> is the order of
  \<open>option\<close>, where \<open>None\<close> is least.
\<close>

record Trade =
  tr_id :: int
  tr_account_id :: int
  tr_stock_id :: int
  tr_trade_type :: string
  tr_trade_date :: date
  tr_trade_datetime :: "datetime option"
  tr_quantity :: int
  tr_price :: decimal
  tr_order_id :: "string option"
  tr_trade_id :: string

record Allocation =
  al_id :: int
  al_stock_id :: int
  al_account_id :: int
  al_owner_id :: int
  al_goal_id :: int
  al_quantity :: int
  al_buy_price :: decimal
  al_buy_date :: date

record Owner =
  ow_id :: int
  ow_name :: string
  ow_is_default :: bool

record Goal =
  go_id :: int
  go_name :: string
  go_is_default :: bool

record CorporateAction =
  ca_id :: int
  ca_stock_id :: int
  ca_action_type :: string
  ca_record_date :: "date option"
  ca_ratio_from :: int
  ca_ratio_to :: int
  ca_old_price :: "rat option"
  ca_new_price :: "rat option"
  ca_detected_automatically :: bool
  ca_applied :: bool
  ca_notes :: "string option"

record DB =
  trades :: "Trade list"
  allocations :: "Allocation list"
  owners :: "Owner list"
  goals :: "Goal list"
  corporate_actions :: "CorporateAction list"

text \<open>
  \<open>commit\<close> refuses a row that breaks a \<open>CheckConstraint\<close> or a \<open>nullable=False\<close> of
  its model with \<open>IntegrityError\<close>, and then stores nothing.
\<close>

datatype db_error = IntegrityError

text \<open>The key a new row receives: one more than the largest key of the table.\<close>

definition next_id :: "int list \<Rightarrow> int" where
  "next_id ids = fold max ids 0 + 1"

text \<open>\<open>Model.query.get(id)\<close>: the row with that primary key, if there is one.\<close>

definition Owner_get :: "DB \<Rightarrow> int \<Rightarrow> Owner option" where
  "Owner_get db i = find (\<lambda>r. ow_id r = i) (owners db)"

definition Goal_get :: "DB \<Rightarrow> int \<Rightarrow> Goal option" where
  "Goal_get db i = find (\<lambda>r. go_id r = i) (goals db)"


section \<open>The allocation manager (services/allocation\_manager.py)\<close>

datatype alloc_error =
  AllocationError | InsufficientUnitsError | InvalidOwnerError | InvalidGoalError
  | DatabaseError db_error | ArithmeticError py_error

text \<open>
  An \<open>AllocationManager\<close> object: the pair it serves and the engine it caches in
  \<open>_fifo_engine\<close>. Every method that may build the engine returns the manager as well.
\<close>

record AllocationManager =
  am_stock_id :: int
  am_account_id :: int
  am_fifo_engine :: "FIFOEngine option"

definition AllocationManager_init :: "int \<Rightarrow> int \<Rightarrow> AllocationManager" where
  "AllocationManager_init stock_id account_id =
     \<lparr>am_stock_id = stock_id, am_account_id = account_id, am_fifo_engine = None\<rparr>"

text \<open>
  The query of \<open>_get_fifo_engine\<close>: the trades of the pair, ordered by
  \<open>trade_datetime\<close> (nulls first), then by \<open>trade_date\<close>. The rows of the pair are read
  through the index \<open>idx_trades_fifo\<close> of models/trade.py, on \<open>stock_id\<close>, \<open>account_id\<close>,
  \<open>trade_type\<close> and \<open>trade_datetime\<close>, and rows that the \<open>order_by\<close> does not tell apart
  stay in the order of the index: buys before sells, then by \<open>trade_datetime\<close>, then in
  insertion order.
\<close>

definition trades_query :: "DB \<Rightarrow> AllocationManager \<Rightarrow> Trade list" where
  "trades_query db m =
     sort_key (\<lambda>t. (tr_trade_datetime t, tr_trade_date t))
       (sort_key (\<lambda>t. (tr_trade_type t, tr_trade_datetime t))
          (filter (\<lambda>t. tr_stock_id t = am_stock_id m \<and> tr_account_id t = am_account_id m)
             (trades db)))"

text \<open>
  One turn of the loop over the trades. Every trade that is not a buy goes to
  \<open>process_sell\<close>; its \<open>ValueError\<close> is caught and dropped (\<open>except ValueError: pass\<close>).
\<close>

definition replay_trade :: "FIFOEngine \<Rightarrow> Trade \<Rightarrow> FIFOEngine" where
  "replay_trade e t =
     (if tr_trade_type t = ''buy''
      then snd (process_buy e (tr_trade_date t) (tr_quantity t) (tr_price t) (tr_trade_id t)
                  (tr_trade_datetime t) None)
      else (case process_sell e (tr_trade_date t) (tr_quantity t) (tr_price t) (tr_trade_id t)
                   (tr_trade_datetime t) of
              (Inl (ValueError q a), e') \<Rightarrow> e'
            | (Inr matched, e') \<Rightarrow> e'))"

fun replay_trades :: "FIFOEngine \<Rightarrow> Trade list \<Rightarrow> FIFOEngine" where
  "replay_trades e [] = e"
| "replay_trades e (t # ts) = replay_trades (replay_trade e t) ts"

definition get_fifo_engine :: "DB \<Rightarrow> AllocationManager \<Rightarrow> FIFOEngine \<times> AllocationManager" where
  "get_fifo_engine db m =
     (case am_fifo_engine m of
        Some e \<Rightarrow> (e, m)
      | None \<Rightarrow> (let e = replay_trades FIFOEngine_init (trades_query db m)
                 in (e, m\<lparr>am_fifo_engine := Some e\<rparr>)))"

definition get_total_holdings :: "DB \<Rightarrow> AllocationManager \<Rightarrow> int \<times> AllocationManager" where
  "get_total_holdings db m =
     (let (e, m') = get_fifo_engine db m in (get_available_quantity e, m'))"

definition own_allocation :: "AllocationManager \<Rightarrow> Allocation \<Rightarrow> bool" where
  "own_allocation m a \<longleftrightarrow> al_stock_id a = am_stock_id m \<and> al_account_id a = am_account_id m"

definition get_allocated_units :: "DB \<Rightarrow> AllocationManager \<Rightarrow> int" where
  "get_allocated_units db m =
     sum_list (map al_quantity (filter (own_allocation m) (allocations db)))"

definition get_available_units :: "DB \<Rightarrow> AllocationManager \<Rightarrow> int \<times> AllocationManager" where
  "get_available_units db m =
     (let (total, m') = get_total_holdings db m;
          allocated = get_allocated_units db m'
      in (max 0 (total - allocated), m'))"

text \<open>
  The loop of \<open>get_weighted_average_price\<close> over the lots, with its variables
  \<open>total_value\<close>, \<open>total_qty\<close>, \<open>earliest_date\<close>, \<open>remaining_to_allocate\<close> and
  \<open>lots_to_skip\<close>; \<open>continue\<close> goes on with the next lot, \<open>break\<close> returns.
\<close>

fun wap_loop ::
  "BuyLot list \<Rightarrow> decimal \<times> int \<times> date option \<times> int \<times> int
     \<Rightarrow> decimal \<times> int \<times> date option \<times> int \<times> int" where
  "wap_loop [] st = st"
| "wap_loop (lot # lots)
     (total_value, total_qty, earliest_date, remaining_to_allocate, lots_to_skip) =
     (let skip_from_lot =
            (if lots_to_skip > 0 then min lots_to_skip (lot_remaining_qty lot) else 0);
          available_in_lot = lot_remaining_qty lot - skip_from_lot;
          lots_to_skip' = lots_to_skip - skip_from_lot
      in if available_in_lot \<le> 0
         then wap_loop lots
                (total_value, total_qty, earliest_date, remaining_to_allocate, lots_to_skip')
         else
           (let take_qty = min remaining_to_allocate available_in_lot;
                total_value' = dec_add total_value (int_mul_dec take_qty (lot_price lot));
                total_qty' = total_qty + take_qty;
                earliest_date' =
                  (case earliest_date of None \<Rightarrow> Some (lot_trade_date lot) | Some d \<Rightarrow> Some d);
                remaining_to_allocate' = remaining_to_allocate - take_qty
            in if remaining_to_allocate' \<le> 0
               then (total_value', total_qty', earliest_date', remaining_to_allocate',
                     lots_to_skip')
               else wap_loop lots
                      (total_value', total_qty', earliest_date', remaining_to_allocate',
                       lots_to_skip')))"

definition get_weighted_average_price ::
  "DB \<Rightarrow> AllocationManager \<Rightarrow> int
     \<Rightarrow> (alloc_error + decimal \<times> date option) \<times> AllocationManager" where
  "get_weighted_average_price db m quantity =
     (let (e, m') = get_fifo_engine db m;
          lots = get_current_holdings_as_lots e;
          allocated = get_allocated_units db m';
          (total_value, total_qty, earliest_date, remaining_to_allocate, lots_to_skip) =
            wap_loop lots (0, 0, None, quantity, allocated)
      in if total_qty = 0 then (Inl InsufficientUnitsError, m')
         else (case dec_div total_value (of_int total_qty) of
                 Inl err \<Rightarrow> (Inl (ArithmeticError err), m')
               | Inr avg_price \<Rightarrow> (Inr (avg_price, earliest_date), m')))"

text \<open>
  \<open>create_allocation\<close>. A result is returned with the tables and the manager as the call
  leaves them: an exception is raised before \<open>db.session.add\<close>, so the tables are
  unchanged. \<open>commit\<close> enforces what models/allocation.py declares for the new row:
  \<open>buy_date\<close> is not null and \<open>quantity > 0\<close>; a row that fails is not stored. The
  column \<open>buy_price\<close> is a \<open>Numeric(15, 4)\<close>.
\<close>

definition create_allocation ::
  "DB \<Rightarrow> AllocationManager \<Rightarrow> int \<Rightarrow> int \<Rightarrow> int
     \<Rightarrow> (alloc_error + Allocation) \<times> DB \<times> AllocationManager" where
  "create_allocation db m owner_id goal_id quantity =
     (case Owner_get db owner_id of
        None \<Rightarrow> (Inl InvalidOwnerError, db, m)
      | Some owner \<Rightarrow>
     (case Goal_get db goal_id of
        None \<Rightarrow> (Inl InvalidGoalError, db, m)
      | Some goal \<Rightarrow>
     (let (available, m1) = get_available_units db m
      in if quantity > available then (Inl InsufficientUnitsError, db, m1)
         else
     (case get_weighted_average_price db m1 quantity of
        (Inl err, m2) \<Rightarrow> (Inl err, db, m2)
      | (Inr (avg_price, buy_date), m2) \<Rightarrow>
     (case buy_date of
        None \<Rightarrow> (Inl (DatabaseError IntegrityError), db, m2)
      | Some d \<Rightarrow>
          if quantity \<le> 0 then (Inl (DatabaseError IntegrityError), db, m2)
          else
            (let allocation =
                   \<lparr>al_id = next_id (map al_id (allocations db)),
                    al_stock_id = am_stock_id m2, al_account_id = am_account_id m2,
                    al_owner_id = owner_id, al_goal_id = goal_id, al_quantity = quantity,
                    al_buy_price = numeric_15_4 avg_price, al_buy_date = d\<rparr>
             in (Inr allocation, db\<lparr>allocations := allocations db @ [allocation]\<rparr>, m2)))))))"

text \<open>Writing an object back: the row with its key is replaced.\<close>

definition store_allocation :: "DB \<Rightarrow> Allocation \<Rightarrow> DB" where
  "store_allocation db a =
     db\<lparr>allocations := map (\<lambda>r. if al_id r = al_id a then a else r) (allocations db)\<rparr>"

definition remove_allocation :: "DB \<Rightarrow> Allocation \<Rightarrow> DB" where
  "remove_allocation db a =
     db\<lparr>allocations := filter (\<lambda>r. al_id r \<noteq> al_id a) (allocations db)\<rparr>"



definition get_allocations :: "DB \<Rightarrow> AllocationManager \<Rightarrow> Allocation list" where
  "get_allocations db m = sort_key al_buy_date (filter (own_allocation m) (allocations db))"







section \<open>Corporate actions (services/corporate\_actions.py)\<close>










section \<open>Example data\<close>

text \<open>Engines and tables on which the properties below are evaluated.\<close>

definition engine_one_lot :: FIFOEngine where
  "engine_one_lot = snd (process_buy FIFOEngine_init 0 10 50 ''B1'' None None)"

definition engine_two_lots :: FIFOEngine where
  "engine_two_lots =
     snd (process_buy (snd (process_buy FIFOEngine_init 0 100 50 ''T001'' None None))
            30 50 55 ''T002'' None None)"

definition trades_buy_sell :: "TradeDict list" where
  "trades_buy_sell =
     [\<lparr>td_trade_type = ''buy'', td_trade_date = 0, td_trade_datetime = None,
       td_quantity = 100, td_price = 50, td_trade_id = ''T001'', td_order_id = None\<rparr>,
      \<lparr>td_trade_type = ''sell'', td_trade_date = 10, td_trade_datetime = None,
       td_quantity = 30, td_price = 60, td_trade_id = ''T002'', td_order_id = None\<rparr>]"

definition db_oversell :: DB where
  "db_oversell =
     \<lparr>trades =
        [\<lparr>tr_id = 1, tr_account_id = 1, tr_stock_id = 1, tr_trade_type = ''buy'',
          tr_trade_date = 0, tr_trade_datetime = None, tr_quantity = 10, tr_price = 50,
          tr_order_id = None, tr_trade_id = ''T001''\<rparr>,
         \<lparr>tr_id = 2, tr_account_id = 1, tr_stock_id = 1, tr_trade_type = ''sell'',
          tr_trade_date = 5, tr_trade_datetime = None, tr_quantity = 20, tr_price = 60,
          tr_order_id = None, tr_trade_id = ''T002''\<rparr>,
         \<lparr>tr_id = 3, tr_account_id = 1, tr_stock_id = 1, tr_trade_type = ''buy'',
          tr_trade_date = 9, tr_trade_datetime = None, tr_quantity = 5, tr_price = 55,
          tr_order_id = None, tr_trade_id = ''T003''\<rparr>],
      allocations = [], owners = [], goals = [], corporate_actions = []\<rparr>"

definition db_holding_120 :: DB where
  "db_holding_120 =
     \<lparr>trades =
        [\<lparr>tr_id = 1, tr_account_id = 1, tr_stock_id = 1, tr_trade_type = ''buy'',
          tr_trade_date = 0, tr_trade_datetime = None, tr_quantity = 120, tr_price = 50,
          tr_order_id = None, tr_trade_id = ''T001''\<rparr>],
      allocations = [],
      owners = [\<lparr>ow_id = 1, ow_name = ''Self'', ow_is_default = True\<rparr>],
      goals = [\<lparr>go_id = 1, go_name = ''Retirement'', go_is_default = True\<rparr>],
      corporate_actions = []\<rparr>"








section \<open>Rounding\<close>

lemma round_half_even_of_int: "round_half_even (of_int n) = n"
  by (simp add: round_half_even_def)

lemma floorlog_pos: "1 < b \<Longrightarrow> 0 < n \<Longrightarrow> 0 < floorlog b n"
  using floorlog_eq_zero_iff[of b n] by auto

lemma adjusted_exp_lower:
  assumes "1 < b" "0 < x"
  shows "of_nat b powi (adjusted_exp b x) \<le> x"
proof (cases "1 \<le> x")
  case True
  define n where "n = nat \<lfloor>x\<rfloor>"
  have n: "0 < n" using True by (simp add: n_def)
  have "b ^ (floorlog b n - 1) \<le> n" using floorlog_bounds[OF n assms(1)] by simp
  then have "((of_nat b) ^ (floorlog b n - 1) :: rat) \<le> of_nat n" by (metis of_nat_le_iff of_nat_power)
  also have "(of_nat n :: rat) = of_int \<lfloor>x\<rfloor>" using True by (simp add: n_def)
  also have "\<dots> \<le> x" by simp
  finally have "(of_nat b :: rat) ^ (floorlog b n - 1) \<le> x" by simp
  moreover have "0 < floorlog b n" using n assms(1) by (rule floorlog_pos[rotated])
  ultimately show ?thesis using True
    by (simp add: adjusted_exp_def n_def power_int_def nat_diff_distrib' of_nat_diff)
next
  case False
  define y where "y = 1 / x"
  define m where "m = nat (\<lceil>y\<rceil> - 1)"
  have y: "1 < y" using False assms(2) by (simp add: y_def)
  then have "2 \<le> \<lceil>y\<rceil>" by linarith
  then have m: "0 < m" by (simp add: m_def)
  have "m < b ^ floorlog b m" using floorlog_bounds[OF m assms(1)] by simp
  then have "m + 1 \<le> b ^ floorlog b m" by simp
  then have "(of_nat (m + 1) :: rat) \<le> of_nat b ^ floorlog b m" by (metis of_nat_le_iff of_nat_power)
  moreover have "(of_nat (m + 1) :: rat) = of_int \<lceil>y\<rceil>" using \<open>2 \<le> \<lceil>y\<rceil>\<close> by (simp add: m_def)
  moreover have "y \<le> of_int \<lceil>y\<rceil>" by simp
  ultimately have "y \<le> (of_nat b :: rat) ^ floorlog b m" by linarith
  then have "1 / (of_nat b :: rat) ^ floorlog b m \<le> x"
    using assms by (simp add: y_def field_simps)
  then show ?thesis using False
    by (simp add: adjusted_exp_def m_def y_def power_int_minus_divide)
qed

lemma adjusted_exp_upper:
  assumes "1 < b" "0 < x"
  shows "x < of_nat b powi (adjusted_exp b x + 1)"
proof (cases "1 \<le> x")
  case True
  define n where "n = nat \<lfloor>x\<rfloor>"
  have n: "0 < n" using True by (simp add: n_def)
  have "n < b ^ floorlog b n" using floorlog_bounds[OF n assms(1)] by simp
  then have "n + 1 \<le> b ^ floorlog b n" by simp
  then have "(of_nat (n + 1) :: rat) \<le> of_nat b ^ floorlog b n" by (metis of_nat_le_iff of_nat_power)
  moreover have "(of_nat (n + 1) :: rat) = of_int \<lfloor>x\<rfloor> + 1" using True by (simp add: n_def)
  moreover have "x < of_int \<lfloor>x\<rfloor> + 1" by linarith
  ultimately have "x < (of_nat b :: rat) ^ floorlog b n" by linarith
  then show ?thesis using True
    by (simp add: adjusted_exp_def n_def)
next
  case False
  define y where "y = 1 / x"
  define m where "m = nat (\<lceil>y\<rceil> - 1)"
  have y: "1 < y" using False assms(2) by (simp add: y_def)
  then have "2 \<le> \<lceil>y\<rceil>" by linarith
  then have m: "0 < m" by (simp add: m_def)
  have fl: "0 < floorlog b m" using assms(1) m by (rule floorlog_pos)
  have "b ^ (floorlog b m - 1) \<le> m" using floorlog_bounds[OF m assms(1)] by simp
  then have "((of_nat b) ^ (floorlog b m - 1) :: rat) \<le> of_nat m" by (metis of_nat_le_iff of_nat_power)
  moreover have "(of_nat m :: rat) = of_int \<lceil>y\<rceil> - 1" using \<open>2 \<le> \<lceil>y\<rceil>\<close> by (simp add: m_def)
  moreover have "of_int \<lceil>y\<rceil> - 1 < y" by linarith
  ultimately have "(of_nat b :: rat) ^ (floorlog b m - 1) < y" by linarith
  moreover have "0 < (of_nat b :: rat) ^ (floorlog b m - 1)" using assms(1) by simp
  ultimately have "x < 1 / (of_nat b :: rat) ^ (floorlog b m - 1)"
    using assms(2) by (simp add: y_def field_simps)
  moreover have "adjusted_exp b x + 1 = - int (floorlog b m - 1)"
    using fl False by (simp add: adjusted_exp_def m_def y_def)
  ultimately show ?thesis
    by (simp only: power_int_minus_divide power_int_of_nat)
qed


lemma round_sig_exact:
  assumes b: "1 < b" and x: "x = of_int c * (of_nat b powi e)" and c: "\<bar>c\<bar> < int b ^ p"
  shows "round_sig b p x = x"
proof (cases "c = 0")
  case True
  then show ?thesis by (simp add: x round_sig_def)
next
  case False
  define B :: rat where "B = of_nat b"
  have B: "1 < B" using b by (simp add: B_def)
  have Bpos: "0 < B powi k" for k using B by (simp add: zero_less_power_int)
  define a where "a = \<bar>x\<bar>"
  have a: "a = of_int \<bar>c\<bar> * (B powi e)"
    using Bpos[of e] by (simp add: a_def x B_def abs_mult)
  have apos: "0 < a" using False Bpos[of e] by (simp add: a)
  define E where "E = adjusted_exp b a - (int p - 1)"
  have "B powi (adjusted_exp b a) \<le> a"
    using adjusted_exp_lower[OF b apos] by (simp add: B_def)
  also have "a < of_int (int b ^ p) * (B powi e)"
    unfolding a using c Bpos[of e] by (simp only: mult_strict_right_mono of_int_less_iff)
  also have "of_int (int b ^ p) * (B powi e) = B powi (int p + e)"
    using B by (simp add: power_int_add B_def)
  finally have "B powi (adjusted_exp b a) < B powi (int p + e)" .
  then have "adjusted_exp b a < int p + e"
    using power_int_increasing[of "int p + e" "adjusted_exp b a" B] B by (cases "adjusted_exp b a < int p + e") auto
  then have Ee: "E \<le> e" by (simp add: E_def)
  define k where "k = nat (e - E)"
  have ek: "e = int k + E" using Ee by (simp add: k_def)
  have pw: "B powi e = of_int (int b ^ k) * (B powi E)"
    using B by (simp add: ek power_int_add B_def)
  have Bnz: "B \<noteq> 0" using B by simp
  have "a / (B powi E) = of_int (\<bar>c\<bar> * int b ^ k)"
    using Bpos[of E] Bnz by (simp add: a pw)
  then have rhe: "round_half_even (a / (B powi E)) = \<bar>c\<bar> * int b ^ k"
    by (simp only: round_half_even_of_int)
  have "round_sig b p x = sgn x * of_int (\<bar>c\<bar> * int b ^ k) * (B powi E)"
    using apos rhe by (simp add: round_sig_def Let_def a_def[symmetric] E_def[symmetric] B_def[symmetric])
  also have "\<dots> = sgn x * a" by (simp add: a pw)
  also have "\<dots> = x" by (simp add: a_def sgn_mult_abs)
  finally show ?thesis .
qed

lemma dec_round_int: "\<bar>n\<bar> < 10 ^ 28 \<Longrightarrow> dec_round (of_int n) = of_int n"
  unfolding dec_round_def using round_sig_exact[of 10 "of_int n" n 0 28] by simp

lemma dec_round_numeral [simp]:
  "(numeral k :: int) < 10 ^ 28 \<Longrightarrow> dec_round (numeral k) = numeral k"
  using dec_round_int[of "numeral k"] by simp

lemma dec_round_0 [simp]: "dec_round 0 = 0"
  by (simp add: dec_round_def round_sig_def)

lemma to_double_int: "\<bar>n\<bar> < 2 ^ 53 \<Longrightarrow> to_double (of_int n) = of_int n"
  unfolding to_double_def using round_sig_exact[of 2 "of_int n" n 0 53] by simp

lemma numeric_15_4_int: "\<bar>n\<bar> < 2 ^ 53 \<Longrightarrow> numeric_15_4 (of_int n) = of_int n"
proof -
  assume "\<bar>n\<bar> < 2 ^ 53"
  then have "to_double (of_int n) * 10 ^ 4 = of_int (n * 10 ^ 4)"
    by (simp add: to_double_int)
  then have "round_half_even (to_double (of_int n) * 10 ^ 4) = n * 10 ^ 4"
    by (simp only: round_half_even_of_int)
  then show ?thesis by (simp add: numeric_15_4_def)
qed

lemma numeric_15_4_numeral [simp]:
  "(numeral k :: int) < 2 ^ 53 \<Longrightarrow> numeric_15_4 (numeral k) = numeral k"
  using numeric_15_4_int[of "numeral k"] by simp


section \<open>Properties of the FIFO engine\<close>

lemma ml_quantity_match_lot [simp]: "ml_quantity (match_lot d p tid lot q) = q"
  by (simp add: match_lot_def Let_def)

lemma sell_loop_props:
  "\<forall>l \<in> set lots. 0 < lot_remaining_qty l \<Longrightarrow> 0 \<le> rs \<Longrightarrow>
   rs \<le> sum_list (map lot_remaining_qty lots) \<Longrightarrow>
   sum_list (map lot_remaining_qty (snd (sell_loop d p tid rs lots matched)))
     = sum_list (map lot_remaining_qty lots) - rs
   \<and> sum_list (map ml_quantity (fst (sell_loop d p tid rs lots matched)))
     = sum_list (map ml_quantity matched) + rs
   \<and> (\<forall>l \<in> set (snd (sell_loop d p tid rs lots matched)). 0 < lot_remaining_qty l)"
proof (induction d p tid rs lots matched rule: sell_loop.induct)
  case (1 d p tid rs matched)
  then show ?case by simp
next
  case (2 d p tid rs buy_lot rest matched)
  show ?case
  proof (cases "rs > 0")
    case False
    with "2.prems" show ?thesis by simp
  next
    case True
    show ?thesis
    proof (cases "lot_remaining_qty buy_lot \<le> rs")
      case le: True
      then have mq: "min rs (lot_remaining_qty buy_lot) = lot_remaining_qty buy_lot" by simp
      have "0 \<le> rs - lot_remaining_qty buy_lot" using le by simp
      moreover have "rs - lot_remaining_qty buy_lot \<le> sum_list (map lot_remaining_qty rest)"
        using "2.prems" by simp
      moreover have "\<forall>l \<in> set rest. 0 < lot_remaining_qty l" using "2.prems" by simp
      ultimately show ?thesis
        using "2.IH"(1)[OF True refl refl refl refl] True mq by (simp add: Let_def)
    next
      case gt: False
      then have mq: "min rs (lot_remaining_qty buy_lot) = rs" by simp
      show ?thesis using True gt mq "2.prems" by (simp add: Let_def)
    qed
  qed
qed



text \<open>
  Claim C2. \<open>process_sell\<close> raises its error exactly when the requested quantity exceeds
  the sum of the remaining quantities of the lots, and then the engine is unchanged: its
  lots, its matched records and its totals.
\<close>

theorem process_sell_insufficient_holdings:
  "(fst (process_sell e d q p tid dt) = Inl (ValueError q (get_available_quantity e))
      \<longleftrightarrow> q > sum_list (map lot_remaining_qty (buy_lots e)))
   \<and> (isl (fst (process_sell e d q p tid dt))
      \<longleftrightarrow> q > sum_list (map lot_remaining_qty (buy_lots e)))
   \<and> (q > sum_list (map lot_remaining_qty (buy_lots e))
      \<longrightarrow> snd (process_sell e d q p tid dt) = e)"
  by (simp add: process_sell_def Let_def get_available_quantity_def split: prod.splits)


theorem process_sell_insufficient_holdings_witness:
  "fst (process_sell engine_one_lot 5 20 60 ''S1'' None) = Inl (ValueError 20 10)
   \<and> snd (process_sell engine_one_lot 5 20 60 ''S1'' None) = engine_one_lot"
  using process_sell_insufficient_holdings[of engine_one_lot 5 20 60 "''S1''" None]
  by (simp add: engine_one_lot_def process_buy_def FIFOEngine_init_def get_available_quantity_def
      Let_def)


lemma sell_loop_records:
  "\<exists>qs. length qs \<le> length lots
     \<and> fst (sell_loop d p tid rs lots matched)
         = matched @ map (\<lambda>(lot, q). match_lot d p tid lot q) (zip lots qs)"
proof (induction d p tid rs lots matched rule: sell_loop.induct)
  case (1 d p tid rs matched)
  show ?case by simp
next
  case (2 d p tid rs buy_lot rest matched)
  show ?case
  proof (cases "rs > 0")
    case False
    then have "fst (sell_loop d p tid rs (buy_lot # rest) matched)
        = matched @ map (\<lambda>(lot, q). match_lot d p tid lot q) (zip (buy_lot # rest) [])"
      by simp
    then show ?thesis by (metis list.size(3) le0)
  next
    case True
    let ?mq = "min rs (lot_remaining_qty buy_lot)"
    let ?m = "match_lot d p tid buy_lot ?mq"
    show ?thesis
    proof (cases "lot_remaining_qty buy_lot - ?mq = 0")
      case z: True
      from "2.IH"(1)[OF True refl refl refl refl] z
      obtain qs where qs: "length qs \<le> length rest"
        "fst (sell_loop d p tid (rs - ?mq) rest (matched @ [?m]))
           = (matched @ [?m]) @ map (\<lambda>(lot, q). match_lot d p tid lot q) (zip rest qs)"
        by auto
      have "fst (sell_loop d p tid rs (buy_lot # rest) matched)
          = matched @ map (\<lambda>(lot, q). match_lot d p tid lot q) (zip (buy_lot # rest) (?mq # qs))"
        using True z qs(2) by (simp add: Let_def)
      moreover have "length (?mq # qs) \<le> length (buy_lot # rest)" using qs(1) by simp
      ultimately show ?thesis by blast
    next
      case nz: False
      then have mq: "?mq = rs" by (simp add: min_def split: if_splits)
      have ne: "lot_remaining_qty buy_lot - rs \<noteq> 0" using nz mq by simp
      have "sell_loop d p tid rs (buy_lot # rest) matched
          = sell_loop d p tid 0
              (buy_lot\<lparr>lot_remaining_qty := lot_remaining_qty buy_lot - rs\<rparr> # rest)
              (matched @ [match_lot d p tid buy_lot rs])"
        using True ne mq by (simp add: Let_def)
      then have "fst (sell_loop d p tid rs (buy_lot # rest) matched)
          = matched @ map (\<lambda>(lot, q). match_lot d p tid lot q) (zip (buy_lot # rest) [?mq])"
        using mq by simp
      moreover have "length [?mq] \<le> length (buy_lot # rest)" by simp
      ultimately show ?thesis by blast
    qed
  qed
qed

lemma process_sell_day_365:
  "process_sell engine_one_lot 365 10 60 ''S1'' None
     = (Inr [\<lparr>ml_entry_date = 0, ml_exit_date = 365, ml_quantity = 10, ml_buy_price = 50,
             ml_sell_price = 60, ml_buy_value = 500, ml_sell_value = 600, ml_profit = 100,
             ml_holding_days = 365, ml_tax_term = ''STCG'', ml_buy_trade_id = ''B1'',
             ml_sell_trade_id = ''S1''\<rparr>],
        \<lparr>buy_lots = [], matched_lots = fst (sell_loop 365 60 ''S1'' 10 (buy_lots engine_one_lot) []),
         total_bought = 10, total_sold = 10\<rparr>)"
  by (simp add: engine_one_lot_def process_buy_def FIFOEngine_init_def
      get_available_quantity_def process_sell_def Let_def match_lot_def int_mul_dec_def
      dec_mul_def dec_sub_def)

lemma process_sell_day_366:
  "process_sell engine_one_lot 366 10 60 ''S1'' None
     = (Inr [\<lparr>ml_entry_date = 0, ml_exit_date = 366, ml_quantity = 10, ml_buy_price = 50,
             ml_sell_price = 60, ml_buy_value = 500, ml_sell_value = 600, ml_profit = 100,
             ml_holding_days = 366, ml_tax_term = ''LTCG'', ml_buy_trade_id = ''B1'',
             ml_sell_trade_id = ''S1''\<rparr>],
        \<lparr>buy_lots = [], matched_lots = fst (sell_loop 366 60 ''S1'' 10 (buy_lots engine_one_lot) []),
         total_bought = 10, total_sold = 10\<rparr>)"
  by (simp add: engine_one_lot_def process_buy_def FIFOEngine_init_def
      get_available_quantity_def process_sell_def Let_def match_lot_def int_mul_dec_def
      dec_mul_def dec_sub_def)

lemma process_sell_day_395:
  "process_sell engine_two_lots 395 120 60 ''T003'' None =
     (Inr [\<lparr>ml_entry_date = 0, ml_exit_date = 395, ml_quantity = 100, ml_buy_price = 50,
            ml_sell_price = 60, ml_buy_value = 5000, ml_sell_value = 6000, ml_profit = 1000,
            ml_holding_days = 395, ml_tax_term = ''LTCG'', ml_buy_trade_id = ''T001'',
            ml_sell_trade_id = ''T003''\<rparr>,
           \<lparr>ml_entry_date = 30, ml_exit_date = 395, ml_quantity = 20, ml_buy_price = 55,
            ml_sell_price = 60, ml_buy_value = 1100, ml_sell_value = 1200, ml_profit = 100,
            ml_holding_days = 365, ml_tax_term = ''STCG'', ml_buy_trade_id = ''T002'',
            ml_sell_trade_id = ''T003''\<rparr>],
      \<lparr>buy_lots = [\<lparr>lot_trade_date = 30, lot_trade_datetime = None, lot_quantity = 50,
                    lot_price = 55, lot_remaining_qty = 30, lot_trade_id = ''T002'',
                    lot_order_id = None\<rparr>],
        matched_lots = fst (sell_loop 395 60 ''T003'' 120 (buy_lots engine_two_lots) []),
        total_bought = 150, total_sold = 120\<rparr>)"
  by (simp add: engine_two_lots_def process_buy_def FIFOEngine_init_def
      get_available_quantity_def process_sell_def Let_def match_lot_def int_mul_dec_def
      dec_mul_def dec_sub_def)

lemma engine_two_lots_positive:
  "\<forall>l \<in> set (buy_lots engine_two_lots). 0 < lot_remaining_qty l"
  by (simp add: engine_two_lots_def process_buy_def FIFOEngine_init_def Let_def)

text \<open>
  Claim C5. The records that \<open>process_sell\<close> returns belong, in order, to the oldest lots
  of the engine: each has the trade date of its lot as entry date, the sale date as exit
  date, and the number of days between the purchase and the sale as holding period, and it
  is long-term exactly when that number exceeds 365. A sale of a positive quantity from
  lots with positive remaining quantities returns at least one record, and the records
  account for the whole quantity sold. So a sale 365 days after the purchase is
  short-term, one 366 days after it is long-term.
\<close>

theorem tax_term_threshold:
  assumes "process_sell e d q p tid dt = (Inr matched, e')"
  shows "length matched \<le> length (buy_lots e)
     \<and> map ml_entry_date matched = map lot_trade_date (take (length matched) (buy_lots e))
     \<and> map ml_exit_date matched = replicate (length matched) d
     \<and> map ml_holding_days matched
         = map (\<lambda>lot. d - lot_trade_date lot) (take (length matched) (buy_lots e))
     \<and> map ml_tax_term matched
         = map (\<lambda>lot. if d - lot_trade_date lot > 365 then ''LTCG'' else ''STCG'')
             (take (length matched) (buy_lots e))
     \<and> (\<forall>m \<in> set matched.
           ml_holding_days m = ml_exit_date m - ml_entry_date m
           \<and> ml_exit_date m = d
           \<and> (ml_tax_term m = ''LTCG'' \<longleftrightarrow> ml_holding_days m > 365)
           \<and> (ml_tax_term m = ''STCG'' \<longleftrightarrow> ml_holding_days m \<le> 365))
     \<and> ((\<forall>l \<in> set (buy_lots e). 0 < lot_remaining_qty l) \<and> 0 \<le> q
          \<longrightarrow> sum_list (map ml_quantity matched) = q \<and> (0 < q \<longrightarrow> matched \<noteq> []))"
proof -
  have le: "q \<le> sum_list (map lot_remaining_qty (buy_lots e))"
    using assms by (auto simp: process_sell_def Let_def get_available_quantity_def
        split: if_splits prod.splits)
  have m: "matched = fst (sell_loop d p tid q (buy_lots e) [])"
    using assms by (auto simp: process_sell_def Let_def split: if_splits prod.splits)
  from sell_loop_records[of "buy_lots e" d p tid q "[]"] m
  obtain qs where qs: "length qs \<le> length (buy_lots e)"
    "matched = map (\<lambda>(lot, q). match_lot d p tid lot q) (zip (buy_lots e) qs)"
    by auto
  have len: "length matched = length qs" using qs by simp
  have lots: "map fst (zip (buy_lots e) qs) = take (length matched) (buy_lots e)"
    using qs(1) by (simp add: len map_fst_zip_take min_def)
  have 1: "map ml_entry_date matched = map lot_trade_date (map fst (zip (buy_lots e) qs))"
    by (simp add: qs(2) match_lot_def Let_def case_prod_beta comp_def)
  have 2: "map ml_holding_days matched
      = map (\<lambda>lot. d - lot_trade_date lot) (map fst (zip (buy_lots e) qs))"
    by (simp add: qs(2) match_lot_def Let_def case_prod_beta comp_def)
  have 3: "map ml_tax_term matched
      = map (\<lambda>lot. if d - lot_trade_date lot > 365 then ''LTCG'' else ''STCG'')
          (map fst (zip (buy_lots e) qs))"
    by (simp add: qs(2) match_lot_def Let_def case_prod_beta comp_def)
  have 4: "map ml_exit_date matched = replicate (length matched) d"
    by (simp add: qs(2) match_lot_def Let_def case_prod_beta comp_def map_replicate_const)
  have 5: "\<forall>m \<in> set matched.
           ml_holding_days m = ml_exit_date m - ml_entry_date m
           \<and> ml_exit_date m = d
           \<and> (ml_tax_term m = ''LTCG'' \<longleftrightarrow> ml_holding_days m > 365)
           \<and> (ml_tax_term m = ''STCG'' \<longleftrightarrow> ml_holding_days m \<le> 365)"
    by (auto simp: qs(2) match_lot_def Let_def split: if_splits)
  have 6: "sum_list (map ml_quantity matched) = q \<and> (0 < q \<longrightarrow> matched \<noteq> [])"
    if pos: "\<forall>l \<in> set (buy_lots e). 0 < lot_remaining_qty l" and q0: "0 \<le> q"
  proof -
    have "sum_list (map ml_quantity matched) = q"
      using sell_loop_props[OF pos q0 le, of d p tid "[]"] by (simp add: m)
    then show ?thesis by auto
  qed
  show ?thesis
    using qs(1) len 1 2 3 4 5 6 unfolding lots by simp
qed

theorem tax_term_threshold_witness:
  "fst (process_sell engine_one_lot 365 10 60 ''S1'' None)
     = Inr [\<lparr>ml_entry_date = 0, ml_exit_date = 365, ml_quantity = 10, ml_buy_price = 50,
             ml_sell_price = 60, ml_buy_value = 500, ml_sell_value = 600, ml_profit = 100,
             ml_holding_days = 365, ml_tax_term = ''STCG'', ml_buy_trade_id = ''B1'',
             ml_sell_trade_id = ''S1''\<rparr>]
   \<and> fst (process_sell engine_one_lot 366 10 60 ''S1'' None)
     = Inr [\<lparr>ml_entry_date = 0, ml_exit_date = 366, ml_quantity = 10, ml_buy_price = 50,
             ml_sell_price = 60, ml_buy_value = 500, ml_sell_value = 600, ml_profit = 100,
             ml_holding_days = 366, ml_tax_term = ''LTCG'', ml_buy_trade_id = ''B1'',
             ml_sell_trade_id = ''S1''\<rparr>]
   \<and> map lot_remaining_qty (buy_lots engine_two_lots) = [100, 50]
   \<and> map (\<lambda>m. (ml_entry_date m, ml_holding_days m, ml_tax_term m, ml_quantity m))
       (projr (fst (process_sell engine_two_lots 395 120 60 ''T003'' None)))
     = [(0, 395, ''LTCG'', 100), (30, 365, ''STCG'', 20)]"
  using tax_term_threshold[OF process_sell_day_365] tax_term_threshold[OF process_sell_day_366]
    tax_term_threshold[OF process_sell_day_395]
  by (simp add: process_sell_day_365 process_sell_day_366 process_sell_day_395
      engine_two_lots_positive)
     (simp add: engine_two_lots_def process_buy_def FIFOEngine_init_def Let_def)


text \<open>
  Claim C4. Buying 100 units at 50 on day 0 and 50 units at 55 on day 30, then selling 120
  units at 60 on day 400, gives exactly two records, 100 units bought at 50 and held 400
  days and 20 units bought at 55 and held 370 days, both long-term, and leaves 30 units at
  55.
\<close>

theorem fifo_example:
  "process_sell engine_two_lots 400 120 60 ''T003'' None =
     (Inr [\<lparr>ml_entry_date = 0, ml_exit_date = 400, ml_quantity = 100, ml_buy_price = 50,
            ml_sell_price = 60, ml_buy_value = 5000, ml_sell_value = 6000, ml_profit = 1000,
            ml_holding_days = 400, ml_tax_term = ''LTCG'', ml_buy_trade_id = ''T001'',
            ml_sell_trade_id = ''T003''\<rparr>,
           \<lparr>ml_entry_date = 30, ml_exit_date = 400, ml_quantity = 20, ml_buy_price = 55,
            ml_sell_price = 60, ml_buy_value = 1100, ml_sell_value = 1200, ml_profit = 100,
            ml_holding_days = 370, ml_tax_term = ''LTCG'', ml_buy_trade_id = ''T002'',
            ml_sell_trade_id = ''T003''\<rparr>],
      \<lparr>buy_lots = [\<lparr>lot_trade_date = 30, lot_trade_datetime = None, lot_quantity = 50,
                    lot_price = 55, lot_remaining_qty = 30, lot_trade_id = ''T002'',
                    lot_order_id = None\<rparr>],
        matched_lots = fst (sell_loop 400 60 ''T003'' 120 (buy_lots engine_two_lots) []),
        total_bought = 150, total_sold = 120\<rparr>)
   \<and> map (\<lambda>l. (lot_remaining_qty l, lot_price l))
       (get_current_holdings_as_lots (snd (process_sell engine_two_lots 400 120 60 ''T003'' None)))
     = [(30, 55)]"
  by (simp add: engine_two_lots_def process_buy_def FIFOEngine_init_def
      get_available_quantity_def process_sell_def Let_def match_lot_def int_mul_dec_def
      dec_mul_def dec_sub_def get_current_holdings_as_lots_def)


lemma engine_consistent_init: "engine_consistent FIFOEngine_init"
  by (simp add: engine_consistent_def FIFOEngine_init_def get_available_quantity_def)

lemma process_buy_consistent:
  "0 < q \<Longrightarrow> engine_consistent e \<Longrightarrow> engine_consistent (snd (process_buy e d q p tid dt oid))"
  by (simp add: engine_consistent_def process_buy_def Let_def get_available_quantity_def)

lemma process_buy_totals:
  "total_bought (snd (process_buy e d q p tid dt oid)) = total_bought e + q"
  "total_sold (snd (process_buy e d q p tid dt oid)) = total_sold e"
  by (simp_all add: process_buy_def Let_def)

lemma process_sell_consistent:
  assumes "0 \<le> q" "engine_consistent e" "process_sell e d q p tid dt = (Inr matched, e')"
  shows "engine_consistent e' \<and> total_bought e' = total_bought e
         \<and> total_sold e' = total_sold e + q"
proof -
  let ?r = "sell_loop d p tid q (buy_lots e) []"
  have le: "q \<le> sum_list (map lot_remaining_qty (buy_lots e))"
    using assms(3) by (auto simp: process_sell_def Let_def get_available_quantity_def
        split: if_splits prod.splits)
  have e': "e' = e\<lparr>buy_lots := snd ?r, matched_lots := matched_lots e @ fst ?r,
                    total_sold := total_sold e + q\<rparr>"
    using assms(3) by (auto simp: process_sell_def Let_def split: if_splits prod.splits)
  have pos: "\<forall>l \<in> set (buy_lots e). 0 < lot_remaining_qty l"
    using assms(2) by (simp add: engine_consistent_def list_all_iff)
  note P = sell_loop_props[OF pos assms(1) le, of d p tid "[]"]
  show ?thesis
    using P assms(2)
    by (simp add: e' engine_consistent_def list_all_iff get_available_quantity_def)
qed

lemma from_trades_loop_consistent:
  "\<forall>t \<in> set ts. 0 < td_quantity t \<Longrightarrow> engine_consistent e \<Longrightarrow>
   from_trades_loop e ts = Inr e' \<Longrightarrow>
   engine_consistent e' \<and> total_bought e' = total_bought e + bought_quantity ts
   \<and> total_sold e' = total_sold e + sold_quantity ts"
proof (induction ts arbitrary: e)
  case Nil
  then show ?case by (simp add: bought_quantity_def sold_quantity_def)
next
  case (Cons t ts)
  show ?case
  proof (cases "td_trade_type t = ''buy''")
    case True
    let ?e1 = "snd (process_buy e (td_trade_date t) (td_quantity t) (td_price t) (td_trade_id t)
                     (td_trade_datetime t) (td_order_id t))"
    have c: "engine_consistent ?e1" using Cons.prems by (simp add: process_buy_consistent)
    have r: "from_trades_loop ?e1 ts = Inr e'" using Cons.prems(3) True by simp
    have q: "\<forall>t \<in> set ts. 0 < td_quantity t" using Cons.prems(1) by simp
    show ?thesis
      using Cons.IH[OF q c r] True
      by (simp add: process_buy_totals bought_quantity_def sold_quantity_def)
  next
    case False
    show ?thesis
    proof (cases "td_trade_type t = ''sell''")
      case sell: True
      obtain res e1 where ps: "process_sell e (td_trade_date t) (td_quantity t) (td_price t)
          (td_trade_id t) (td_trade_datetime t) = (res, e1)" by (cases "process_sell e (td_trade_date t) (td_quantity t) (td_price t)
          (td_trade_id t) (td_trade_datetime t)")
      from Cons.prems(3) False sell ps obtain matched where res: "res = Inr matched"
        and r: "from_trades_loop e1 ts = Inr e'"
        by (cases res) auto
      have q0: "0 \<le> td_quantity t" using Cons.prems(1) by (simp add: less_imp_le)
      note C = process_sell_consistent[OF q0 Cons.prems(2) ps[unfolded res]]
      have q: "\<forall>t \<in> set ts. 0 < td_quantity t" using Cons.prems(1) by simp
      show ?thesis
        using Cons.IH[OF q _ r] C False sell
        by (simp add: bought_quantity_def sold_quantity_def)
    next
      case other: False
      have q: "\<forall>t \<in> set ts. 0 < td_quantity t" using Cons.prems(1) by simp
      have r: "from_trades_loop e ts = Inr e'" using Cons.prems(3) False other by simp
      show ?thesis
        using Cons.IH[OF q Cons.prems(2) r] False other
        by (simp add: bought_quantity_def sold_quantity_def)
    qed
  qed
qed

lemma sum_filter_mset_cong:
  fixes f :: "'a \<Rightarrow> int"
  shows "mset xs = mset ys \<Longrightarrow>
    sum_list (map f (filter P xs)) = sum_list (map f (filter P ys))"
proof -
  assume a: "mset xs = mset ys"
  have "sum_list (map f (filter P xs)) = sum_mset (image_mset f (filter_mset P (mset xs)))"
    by (metis mset_filter mset_map sum_mset_sum_list)
  also have "\<dots> = sum_mset (image_mset f (filter_mset P (mset ys)))" by (simp add: a)
  also have "\<dots> = sum_list (map f (filter P ys))"
    by (metis mset_filter mset_map sum_mset_sum_list)
  finally show ?thesis .
qed

lemma engine_consistent_nonneg: "engine_consistent e \<Longrightarrow> 0 \<le> get_available_quantity e"
  unfolding engine_consistent_def get_available_quantity_def list_all_iff
  by (intro sum_list_nonneg) (auto simp: less_imp_le)

lemma from_trades_buy_sell:
  "from_trades trades_buy_sell =
     Inr \<lparr>buy_lots = [\<lparr>lot_trade_date = 0, lot_trade_datetime = None, lot_quantity = 100,
                       lot_price = 50, lot_remaining_qty = 70, lot_trade_id = ''T001'',
                       lot_order_id = None\<rparr>],
          matched_lots = [\<lparr>ml_entry_date = 0, ml_exit_date = 10, ml_quantity = 30,
                           ml_buy_price = 50, ml_sell_price = 60, ml_buy_value = 1500,
                           ml_sell_value = 1800, ml_profit = 300, ml_holding_days = 10,
                           ml_tax_term = ''STCG'', ml_buy_trade_id = ''T001'',
                           ml_sell_trade_id = ''T002''\<rparr>],
          total_bought = 100, total_sold = 30\<rparr>"
  by (simp add: from_trades_def trades_buy_sell_def trade_sort_key_def process_buy_def
      process_sell_def FIFOEngine_init_def get_available_quantity_def Let_def match_lot_def
      int_mul_dec_def dec_mul_def dec_sub_def)


text \<open>
  Claim C1, as amended. For every list of trades with positive quantities that
  \<open>from_trades\<close> accepts (each sell is at most the quantity available when it is
  reached), the available quantity of the engine is the quantity bought minus the quantity
  sold; the quantity disposed of, that is the sum of the matched records, is the quantity
  sold and is not subtracted again; and the available quantity is never negative.
\<close>

theorem available_quantity_balance:
  assumes "\<forall>t \<in> set tds. 0 < td_quantity t" and "from_trades tds = Inr e"
  shows "get_available_quantity e = bought_quantity tds - sold_quantity tds
         \<and> disposed_quantity e = sold_quantity tds
         \<and> total_bought e = bought_quantity tds
         \<and> total_sold e = sold_quantity tds
         \<and> 0 \<le> get_available_quantity e"
proof -
  let ?ts = "sort_key trade_sort_key tds"
  have q: "\<forall>t \<in> set ?ts. 0 < td_quantity t" using assms(1) by simp
  have r: "from_trades_loop FIFOEngine_init ?ts = Inr e" using assms(2) by (simp add: from_trades_def)
  note C = from_trades_loop_consistent[OF q engine_consistent_init r]
  have b: "bought_quantity ?ts = bought_quantity tds"
    unfolding bought_quantity_def by (rule sum_filter_mset_cong) simp
  have s: "sold_quantity ?ts = sold_quantity tds"
    unfolding sold_quantity_def by (rule sum_filter_mset_cong) simp
  have tb: "total_bought e = bought_quantity tds" using C b by (simp add: FIFOEngine_init_def)
  have ts: "total_sold e = sold_quantity tds" using C s by (simp add: FIFOEngine_init_def)
  have c: "engine_consistent e" using C by simp
  show ?thesis
    using c tb ts engine_consistent_nonneg[OF c]
    by (simp add: engine_consistent_def disposed_quantity_def)
qed

theorem available_quantity_balance_witness:
  "get_available_quantity (projr (from_trades trades_buy_sell)) = 70
   \<and> bought_quantity trades_buy_sell = 100 \<and> sold_quantity trades_buy_sell = 30
   \<and> disposed_quantity (projr (from_trades trades_buy_sell)) = 30"
  using available_quantity_balance[of trades_buy_sell "projr (from_trades trades_buy_sell)"]
  by (simp add: from_trades_buy_sell)
     (simp add: trades_buy_sell_def bought_quantity_def sold_quantity_def)

theorem available_quantity_disposed_counterexample:
  "\<not> isl (from_trades trades_buy_sell)
   \<and> get_available_quantity (projr (from_trades trades_buy_sell)) = 70
   \<and> bought_quantity trades_buy_sell - sold_quantity trades_buy_sell
       - disposed_quantity (projr (from_trades trades_buy_sell)) = 40"
  by (simp add: from_trades_buy_sell)
     (simp add: trades_buy_sell_def bought_quantity_def sold_quantity_def
        get_available_quantity_def disposed_quantity_def)


section \<open>Properties of the rebuilt engine\<close>

lemma replay_trades_append:
  "replay_trades e (xs @ ys) = replay_trades (replay_trades e xs) ys"
  by (induction xs arbitrary: e) simp_all

lemma replay_trade_oversell:
  "tr_trade_type t \<noteq> ''buy'' \<Longrightarrow> tr_quantity t > get_available_quantity e \<Longrightarrow>
   replay_trade e t = e"
  by (simp add: replay_trade_def process_sell_def Let_def)


text \<open>
  Claim C10. When the allocation manager rebuilds the engine from the stored trades, a
  sell whose quantity exceeds the quantity available at its place in the replay is passed
  over: the engine after it is the engine before it, and the rebuilt engine and its
  holdings are those of the history without that sell.
\<close>

theorem rebuild_skips_oversell:
  assumes "am_fifo_engine m = None"
    and "trades_query db m = pre @ t # post"
    and "tr_trade_type t \<noteq> ''buy''"
    and "tr_quantity t > get_available_quantity (replay_trades FIFOEngine_init pre)"
  shows "fst (get_fifo_engine db m) = replay_trades FIFOEngine_init (pre @ post)
         \<and> replay_trades FIFOEngine_init (pre @ [t]) = replay_trades FIFOEngine_init pre
         \<and> fst (get_total_holdings db m)
             = get_available_quantity (replay_trades FIFOEngine_init (pre @ post))"
proof -
  have skip: "replay_trade (replay_trades FIFOEngine_init pre) t = replay_trades FIFOEngine_init pre"
    using assms(3,4) by (rule replay_trade_oversell)
  have "fst (get_fifo_engine db m) = replay_trades FIFOEngine_init (pre @ t # post)"
    using assms(1,2) by (simp add: get_fifo_engine_def Let_def)
  also have "\<dots> = replay_trades FIFOEngine_init (pre @ post)"
    by (simp add: replay_trades_append skip)
  finally have a: "fst (get_fifo_engine db m) = replay_trades FIFOEngine_init (pre @ post)" .
  have b: "replay_trades FIFOEngine_init (pre @ [t]) = replay_trades FIFOEngine_init pre"
    by (simp add: replay_trades_append skip)
  show ?thesis using a b by (auto simp: get_total_holdings_def split: prod.splits)
qed

lemma trades_query_oversell:
  "trades_query db_oversell (AllocationManager_init 1 1) = trades db_oversell"
  by (simp add: trades_query_def db_oversell_def AllocationManager_init_def
      less_eq_prod_def less_prod_def less_eq_option_def less_option_def)

theorem rebuild_skips_oversell_witness:
  "get_available_quantity (fst (get_fifo_engine db_oversell (AllocationManager_init 1 1))) = 15
   \<and> map lot_remaining_qty
       (buy_lots (fst (get_fifo_engine db_oversell (AllocationManager_init 1 1)))) = [10, 5]
   \<and> matched_lots (fst (get_fifo_engine db_oversell (AllocationManager_init 1 1))) = []"
  using rebuild_skips_oversell[of "AllocationManager_init 1 1" db_oversell
      "[hd (trades db_oversell)]" "trades db_oversell ! 1" "[trades db_oversell ! 2]"]
  by (simp add: trades_query_oversell)
     (simp add: db_oversell_def AllocationManager_init_def replay_trade_def process_buy_def
       process_sell_def FIFOEngine_init_def get_available_quantity_def Let_def)

section \<open>Properties of the allocation manager\<close>

lemma get_fifo_engine_ids [simp]:
  "am_stock_id (snd (get_fifo_engine db m)) = am_stock_id m"
  "am_account_id (snd (get_fifo_engine db m)) = am_account_id m"
  by (simp_all add: get_fifo_engine_def Let_def split: option.splits)

lemma get_total_holdings_ids [simp]:
  "am_stock_id (snd (get_total_holdings db m)) = am_stock_id m"
  "am_account_id (snd (get_total_holdings db m)) = am_account_id m"
  by (simp_all add: get_total_holdings_def split: prod.splits)
     (metis get_fifo_engine_ids snd_conv)+


lemma get_available_units_ids [simp]:
  "am_stock_id (snd (get_available_units db m)) = am_stock_id m"
  "am_account_id (snd (get_available_units db m)) = am_account_id m"
  by (simp_all add: get_available_units_def Let_def split: prod.splits)
     (metis get_total_holdings_ids snd_conv)+

lemma get_weighted_average_price_ids [simp]:
  "am_stock_id (snd (get_weighted_average_price db m q)) = am_stock_id m"
  "am_account_id (snd (get_weighted_average_price db m q)) = am_account_id m"
  by (simp_all add: get_weighted_average_price_def Let_def split: prod.splits sum.splits)
     (metis get_fifo_engine_ids snd_conv)+

text \<open>
  C7: \<open>create_allocation\<close> checks the owner first, then the goal, then the quantity
  against the available units. With an unknown owner it raises \<open>InvalidOwnerError\<close>
  whatever the quantity is; with a known owner and an unknown goal it raises
  \<open>InvalidGoalError\<close>; with both known and a quantity above the available units it raises
  \<open>InsufficientUnitsError\<close>. Whenever it raises, the tables are as they were: no
  allocation is stored.
\<close>

theorem create_allocation_validation_order:
  "(Owner_get db owner_id = None \<longrightarrow>
      create_allocation db m owner_id goal_id quantity = (Inl InvalidOwnerError, db, m))
   \<and> (Owner_get db owner_id \<noteq> None \<and> Goal_get db goal_id = None \<longrightarrow>
      create_allocation db m owner_id goal_id quantity = (Inl InvalidGoalError, db, m))
   \<and> (Owner_get db owner_id \<noteq> None \<and> Goal_get db goal_id \<noteq> None
        \<and> quantity > fst (get_available_units db m) \<longrightarrow>
      fst (create_allocation db m owner_id goal_id quantity) = Inl InsufficientUnitsError
      \<and> fst (snd (create_allocation db m owner_id goal_id quantity)) = db)
   \<and> (isl (fst (create_allocation db m owner_id goal_id quantity)) \<longrightarrow>
      fst (snd (create_allocation db m owner_id goal_id quantity)) = db)"
  by (auto simp: create_allocation_def Let_def split: option.splits prod.splits sum.splits)

lemma available_db_holding_120:
  "fst (get_available_units db_holding_120 (AllocationManager_init 1 1)) = 120"
  by (simp add: get_available_units_def get_total_holdings_def get_fifo_engine_def
      get_allocated_units_def trades_query_def db_holding_120_def AllocationManager_init_def
      replay_trade_def process_buy_def FIFOEngine_init_def get_available_quantity_def Let_def)

theorem create_allocation_validation_order_witness:
  "create_allocation db_holding_120 (AllocationManager_init 1 1) 7 9 150
     = (Inl InvalidOwnerError, db_holding_120, AllocationManager_init 1 1)
   \<and> create_allocation db_holding_120 (AllocationManager_init 1 1) 1 9 150
     = (Inl InvalidGoalError, db_holding_120, AllocationManager_init 1 1)
   \<and> fst (create_allocation db_holding_120 (AllocationManager_init 1 1) 1 1 150)
     = Inl InsufficientUnitsError
   \<and> fst (snd (create_allocation db_holding_120 (AllocationManager_init 1 1) 1 1 150))
     = db_holding_120"
  using create_allocation_validation_order[of db_holding_120 7 "AllocationManager_init 1 1" 9 150]
    create_allocation_validation_order[of db_holding_120 1 "AllocationManager_init 1 1" 9 150]
    create_allocation_validation_order[of db_holding_120 1 "AllocationManager_init 1 1" 1 150]
  by (simp add: available_db_holding_120)
     (simp add: Owner_get_def Goal_get_def db_holding_120_def)




lemma get_total_holdings_eq:
  "get_total_holdings db m
     = (get_available_quantity (fst (get_fifo_engine db m)), snd (get_fifo_engine db m))"
  by (simp add: get_total_holdings_def split: prod.splits)











lemma get_allocations_own:
  "a \<in> set (get_allocations db m) \<Longrightarrow> own_allocation m a"
  by (auto simp: get_allocations_def)













lemma store_allocation_trades [simp]: "trades (store_allocation db a) = trades db"
  by (simp add: store_allocation_def)

lemma remove_allocation_trades [simp]: "trades (remove_allocation db a) = trades db"
  by (simp add: remove_allocation_def)








lemma replay_trade_consistent:
  assumes "0 < tr_quantity t" "engine_consistent e"
  shows "engine_consistent (replay_trade e t)"
proof (cases "tr_trade_type t = ''buy''")
  case True
  then show ?thesis using assms by (simp add: replay_trade_def process_buy_consistent)
next
  case False
  obtain r e' where ps: "process_sell e (tr_trade_date t) (tr_quantity t) (tr_price t)
      (tr_trade_id t) (tr_trade_datetime t) = (r, e')"
    by (cases "process_sell e (tr_trade_date t) (tr_quantity t) (tr_price t)
      (tr_trade_id t) (tr_trade_datetime t)") auto
  show ?thesis
  proof (cases r)
    case (Inl err)
    then have "e' = e" using ps by (auto simp: process_sell_def Let_def split: if_splits prod.splits)
    then show ?thesis using False ps Inl assms(2)
      by (simp add: replay_trade_def split: fifo_error.splits)
  next
    case (Inr matched)
    have "0 \<le> tr_quantity t" using assms(1) by simp
    from process_sell_consistent[OF this assms(2) ps[unfolded Inr]]
    show ?thesis using False ps Inr by (simp add: replay_trade_def)
  qed
qed

lemma replay_trades_consistent:
  "\<forall>t \<in> set ts. 0 < tr_quantity t \<Longrightarrow> engine_consistent e
   \<Longrightarrow> engine_consistent (replay_trades e ts)"
  by (induction ts arbitrary: e) (simp_all add: replay_trade_consistent)

lemma total_holdings_nonneg:
  assumes "\<forall>t \<in> set (trades db). 0 < tr_quantity t" "am_fifo_engine m = None"
  shows "0 \<le> fst (get_total_holdings db m)"
proof -
  have "\<forall>t \<in> set (trades_query db m). 0 < tr_quantity t"
    using assms(1) by (simp add: trades_query_def)
  then have "engine_consistent (replay_trades FIFOEngine_init (trades_query db m))"
    by (rule replay_trades_consistent) (rule engine_consistent_init)
  then show ?thesis
    using assms(2) by (simp add: get_total_holdings_eq get_fifo_engine_def Let_def
        engine_consistent_nonneg)
qed

















section \<open>Properties of saving a corporate action\<close>














section \<open>Properties of the split adjustment\<close>

lemma adjusted_exp_unique:
  assumes b: "1 < b" and lo: "of_nat b powi e \<le> x" and hi: "x < of_nat b powi (e + 1)"
  shows "adjusted_exp b x = e"
proof -
  define B :: rat where "B = of_nat b"
  have B: "1 < B" using b by (simp add: B_def)
  have "0 < B powi e" using B by (simp add: zero_less_power_int)
  then have x: "0 < x" using lo by (simp add: B_def)
  let ?a = "adjusted_exp b x"
  have 1: "B powi ?a \<le> x" using adjusted_exp_lower[OF b x] by (simp add: B_def)
  have 2: "x < B powi (?a + 1)" using adjusted_exp_upper[OF b x] by (simp add: B_def)
  have "B powi ?a < B powi (e + 1)" using 1 hi by (simp add: B_def)
  then have "?a < e + 1"
    using power_int_increasing[of "e + 1" ?a B] B by (cases "?a < e + 1") auto
  moreover have "B powi e < B powi (?a + 1)" using lo 2 by (simp add: B_def)
  then have "e < ?a + 1"
    using power_int_increasing[of "?a + 1" e B] B by (cases "e < ?a + 1") auto
  ultimately show ?thesis by simp
qed


lemma adjusted_exp_10_tens: "10 \<le> x \<Longrightarrow> x < 100 \<Longrightarrow> adjusted_exp 10 x = 1"
  using adjusted_exp_unique[of 10 1 x] by simp

lemma adjusted_exp_10_hundreds: "100 \<le> x \<Longrightarrow> x < 1000 \<Longrightarrow> adjusted_exp 10 x = 2"
  using adjusted_exp_unique[of 10 2 x] by simp

lemma to_double_numeral [simp]:
  "(numeral k :: int) < 2 ^ 53 \<Longrightarrow> to_double (numeral k) = numeral k"
  using to_double_int[of "numeral k"] by simp

lemma float_repr_from_numeral:
  "float_repr_from (numeral k) n x =
     (case float_repr_digits n x of
        Some d \<Rightarrow> d
      | None \<Rightarrow> float_repr_from (pred_numeral k) (Suc n) x)"
  by (simp add: numeral_eq_Suc)


lemma floor_numeral_div:
  "\<lfloor>(numeral a :: rat) / numeral b\<rfloor> = numeral a div numeral b"
  using floor_divide_of_int_eq[of "numeral a" "numeral b", where ?'a = rat] by simp

lemma ceiling_numeral_div:
  "\<lceil>(numeral a :: rat) / numeral b\<rceil> = - ((- numeral a) div numeral b)"
  using floor_divide_of_int_eq[of "- numeral a" "numeral b", where ?'a = rat]
  by (simp add: ceiling_def)

lemma float_repr_25 [simp]: "decimal_of_float_str 25 = 25"
proof -
  have 1: "float_repr_digits (Suc 0) 25 = None"
    by (simp add: float_repr_digits_def Let_def adjusted_exp_10_tens floor_numeral_div
        ceiling_numeral_div)
  have 2: "float_repr_digits (Suc (Suc 0)) 25 = Some 25"
    by (simp add: float_repr_digits_def Let_def adjusted_exp_10_tens)
  show ?thesis
    by (simp add: decimal_of_float_str_def float_repr_from_numeral 1 2)
qed




lemma int_of_float_of_int [simp]: "int_of_float (of_int n) = n"
  by (simp add: int_of_float_def)






end
